theory Spec2Isabelle
  imports Main "HOL-Library.AList" "HOL-Library.Multiset" "HOL-Library.Product_Lexorder"
begin

section \<open>Strings, decimal numbers and paths\<close>

text \<open>
  Go strings are byte strings; they are modelled as \<open>string\<close> (a list of 8-bit characters).
  \<open>strings.HasPrefix\<close>, \<open>strings.HasSuffix\<close> and \<open>strings.FieldsFunc\<close> are written out on lists.
\<close>

definition HasPrefix :: "string \<Rightarrow> string \<Rightarrow> bool" where
  "HasPrefix s p = (take (length p) s = p)"

definition HasSuffix :: "string \<Rightarrow> string \<Rightarrow> bool" where
  "HasSuffix s x = (length x \<le> length s \<and> drop (length s - length x) s = x)"

text \<open>
  \<open>strings.FieldsFunc(s, f)\<close> splits \<open>s\<close> at every run of characters satisfying \<open>f\<close> and
  returns the non-empty pieces between the runs. \<open>FieldsFunc_acc\<close> carries the piece that is
  being read (in reverse).
\<close>

fun FieldsFunc_acc :: "(char \<Rightarrow> bool) \<Rightarrow> string \<Rightarrow> string \<Rightarrow> string list" where
  "FieldsFunc_acc f acc [] = (if acc = [] then [] else [rev acc])"
| "FieldsFunc_acc f acc (c # cs) =
     (if f c then (if acc = [] then FieldsFunc_acc f [] cs else rev acc # FieldsFunc_acc f [] cs)
      else FieldsFunc_acc f (c # acc) cs)"

definition FieldsFunc :: "string \<Rightarrow> (char \<Rightarrow> bool) \<Rightarrow> string list" where
  "FieldsFunc s f = FieldsFunc_acc f [] s"

definition newline :: char where
  "newline = CHR 0x0A"

subsection \<open>Decimal digits\<close>

definition digit_char :: "nat \<Rightarrow> char" where
  "digit_char d = char_of (48 + d)"

definition isDigit :: "char \<Rightarrow> bool" where
  "isDigit c = (48 \<le> (of_char c :: nat) \<and> (of_char c :: nat) \<le> 57)"

definition digit_val :: "char \<Rightarrow> nat" where
  "digit_val c = of_char c - 48"

fun decimal :: "nat \<Rightarrow> string" where
  "decimal n = (if n < 10 then [digit_char n] else decimal (n div 10) @ [digit_char (n mod 10)])"

declare decimal.simps [simp del]

definition decval :: "string \<Rightarrow> nat" where
  "decval s = foldl (\<lambda>a c. 10 * a + digit_val c) 0 s"

text \<open>\<open>%d\<close> of \<open>fmt.Sprintf\<close> on a Go \<open>int\<close>.\<close>

definition itoa :: "int \<Rightarrow> string" where
  "itoa n = (if n < 0 then CHR ''-'' # decimal (nat (- n)) else decimal (nat n))"

text \<open>
  \<open>appendInt\<close> of package \<open>time\<close>: the decimal digits of \<open>x\<close>, padded with zeros on the left
  to the given width, after a minus sign when \<open>x\<close> is negative.
\<close>

definition appendInt :: "int \<Rightarrow> nat \<Rightarrow> string" where
  "appendInt x width =
     (let ds = decimal (nat \<bar>x\<bar>)
      in (if x < 0 then ''-'' else '''') @ replicate (width - length ds) (CHR ''0'') @ ds)"

subsection \<open>Paths\<close>

text \<open>
  A path is modelled in the decomposed form that \<open>filepath.Dir\<close> and \<open>filepath.Base\<close> compute
  from a clean path: the directory and the final element. \<open>filepath.Join\<close> of a directory and
  a file name puts the two together again. \<open>filepath.Ext\<close> scans the name from its end for the
  last dot, stopping at a separator.
\<close>

type_synonym path = "string \<times> string"

definition Dir :: "path \<Rightarrow> string" where
  "Dir p = fst p"

definition Base :: "path \<Rightarrow> string" where
  "Base p = snd p"

definition Join :: "string \<Rightarrow> string \<Rightarrow> path" where
  "Join d n = (d, n)"

definition ext_stop :: "char \<Rightarrow> bool" where
  "ext_stop c = (c = CHR ''.'' \<or> c = CHR ''/'')"

definition Ext :: "string \<Rightarrow> string" where
  "Ext p =
     (case dropWhile (\<lambda>c. \<not> ext_stop c) (rev p) of
        [] \<Rightarrow> []
      | c # _ \<Rightarrow> if c = CHR ''.'' then c # rev (takeWhile (\<lambda>c. \<not> ext_stop c) (rev p)) else [])"

text \<open>\<open>fmt.Sprintf("%s.%d", name, n)\<close>: the name of the sequential backup with index \<open>n\<close>.\<close>

definition seqName :: "path \<Rightarrow> int \<Rightarrow> path" where
  "seqName name n = (fst name, snd name @ ''.'' @ itoa n)"

section \<open>Time stamps\<close>

text \<open>
  A \<open>time.Time\<close> is modelled by the calendar fields of the instant in UTC, so \<open>UTC\<close> leaves
  the representation as it is. \<open>After\<close> compares instants, which on these fields is the
  lexicographic order.
\<close>

record time =
  year :: int
  month :: nat
  day :: nat
  hour :: nat
  minute :: nat
  second :: nat
  nsec :: nat

definition UTC :: "time \<Rightarrow> time" where
  "UTC t = t"

definition stamp :: "time \<Rightarrow> int \<times> nat \<times> nat \<times> nat \<times> nat \<times> nat \<times> nat" where
  "stamp t = (year t, month t, day t, hour t, minute t, second t, nsec t)"

definition After :: "time \<Rightarrow> time \<Rightarrow> bool" where
  "After a b = (stamp b < stamp a)"

definition isLeap :: "int \<Rightarrow> bool" where
  "isLeap y = (y mod 4 = 0 \<and> (y mod 100 \<noteq> 0 \<or> y mod 400 = 0))"

definition daysIn :: "nat \<Rightarrow> int \<Rightarrow> nat" where
  "daysIn m y =
     (if m = 2 then (if isLeap y then 29 else 28)
      else if m = 4 \<or> m = 6 \<or> m = 9 \<or> m = 11 then 30 else 31)"

text \<open>
  \<open>t.Format(backupTimeFormat)\<close> with \<open>backupTimeFormat = "2006-01-02T15-04-05.000000000"\<close>:
  the year on four digits (more when it does not fit), month, day, hour, minute and second
  on two, and the nanoseconds on nine.
\<close>

definition Format :: "time \<Rightarrow> string" where
  "Format t =
     appendInt (year t) 4 @ ''-'' @ appendInt (int (month t)) 2 @ ''-'' @ appendInt (int (day t)) 2
     @ ''T'' @ appendInt (int (hour t)) 2 @ ''-'' @ appendInt (int (minute t)) 2
     @ ''-'' @ appendInt (int (second t)) 2 @ ''.'' @ appendInt (int (nsec t)) 9"

text \<open>
  \<open>time.Parse(backupTimeFormat, value)\<close>. \<open>atoi\<close> accepts a sign before the digits;
  \<open>getnum\<close> reads two digits, or a single one when the field is not of fixed width (the hour
  of this layout); \<open>skip\<close> consumes a literal character of the layout.
\<close>

definition atoi :: "string \<Rightarrow> int option" where
  "atoi s =
     (let signed = (s \<noteq> [] \<and> (hd s = CHR ''-'' \<or> hd s = CHR ''+''));
          body = (if signed then tl s else s)
      in if list_all isDigit body
         then Some (if s \<noteq> [] \<and> hd s = CHR ''-'' then - int (decval body) else int (decval body))
         else None)"

fun getnum :: "string \<Rightarrow> bool \<Rightarrow> (nat \<times> string) option" where
  "getnum [] fixed = None"
| "getnum [c] fixed = (if isDigit c \<and> \<not> fixed then Some (digit_val c, []) else None)"
| "getnum (c # d # s) fixed =
     (if \<not> isDigit c then None
      else if \<not> isDigit d then (if fixed then None else Some (digit_val c, d # s))
      else Some (digit_val c * 10 + digit_val d, s))"

fun skip :: "string \<Rightarrow> char \<Rightarrow> string option" where
  "skip [] c = None"
| "skip (v # vs) c = (if v = c then Some vs else None)"

definition parseNanoseconds :: "string \<Rightarrow> nat option" where
  "parseNanoseconds v =
     (if v = [] \<or> \<not> (hd v = CHR ''.'' \<or> hd v = CHR '','') then None
      else case atoi (tl v) of None \<Rightarrow> None | Some ns \<Rightarrow> if ns < 0 then None else Some (nat ns))"

text \<open>The year, month and day of the layout, up to the letter \<open>T\<close>.\<close>

definition parse_date :: "string \<Rightarrow> ((int \<times> nat \<times> nat) \<times> string) option" where
  "parse_date v0 =
     (if length v0 < 4 \<or> \<not> isDigit (hd v0) then None else
      Option.bind (atoi (take 4 v0)) (\<lambda>y.
      Option.bind (skip (drop 4 v0) (CHR ''-'')) (\<lambda>v1.
      Option.bind (getnum v1 True) (\<lambda>(mo, v2).
      if mo \<le> 0 \<or> 12 < mo then None else
      Option.bind (skip v2 (CHR ''-'')) (\<lambda>v3.
      Option.bind (getnum v3 True) (\<lambda>(d, v4).
      Some ((y, mo, d), v4)))))))"

text \<open>The hour, minute and second of the layout.\<close>

definition parse_clock :: "string \<Rightarrow> ((nat \<times> nat \<times> nat) \<times> string) option" where
  "parse_clock v5 =
     Option.bind (getnum v5 False) (\<lambda>(h, v6).
     if 24 \<le> h then None else
     Option.bind (skip v6 (CHR ''-'')) (\<lambda>v7.
     Option.bind (getnum v7 True) (\<lambda>(mi, v8).
     if 60 \<le> mi then None else
     Option.bind (skip v8 (CHR ''-'')) (\<lambda>v9.
     Option.bind (getnum v9 True) (\<lambda>(s, v10).
     if 60 \<le> s then None else Some ((h, mi, s), v10))))))"

definition Parse :: "string \<Rightarrow> time option" where
  "Parse v0 =
     Option.bind (parse_date v0) (\<lambda>((y, mo, d), v4).
     Option.bind (skip v4 (CHR ''T'')) (\<lambda>v5.
     Option.bind (parse_clock v5) (\<lambda>((h, mi, s), v10).
     if length v10 < 10 then None else
     Option.bind (parseNanoseconds (take 10 v10)) (\<lambda>ns.
     if drop 10 v10 \<noteq> [] then None else
     if d < 1 \<or> daysIn mo y < d then None else
     Some \<lparr>year = y, month = mo, day = d, hour = h, minute = mi, second = s, nsec = ns\<rparr>))))"

text \<open>The instants the fixed-width layout can write: a year of four digits and fields in range.\<close>

definition valid_time :: "time \<Rightarrow> bool" where
  "valid_time t =
     (0 \<le> year t \<and> year t \<le> 9999 \<and> 1 \<le> month t \<and> month t \<le> 12 \<and> 1 \<le> day t
      \<and> day t \<le> daysIn (month t) (year t) \<and> hour t < 24 \<and> minute t < 60 \<and> second t < 60
      \<and> nsec t < 1000000000)"

section \<open>The file system and the other services of the operating system\<close>

text \<open>
  The logger talks to the operating system only through calls of packages \<open>os\<close>, \<open>io\<close>,
  \<open>ioutil\<close> and \<open>time\<close>. Their effect is modelled on an explicit state, the \<open>world\<close>:
  \<^item> \<open>entries\<close> is the table of directory entries, from a path to a directory or to the
    number of the inode of a regular file; \<open>inodes\<close> holds the files themselves, so that a
    file keeps its identity when its name changes;
  \<^item> an open file (\<open>*os.File\<close>) is a \<open>handle\<close>: the inode, the position and the append flag;
  \<^item> \<open>faults op\<close> is the number of coming calls of \<open>op\<close> that fail for a reason outside the
    model (contention, permissions, a device error); \<open>disk_free\<close> is the number of bytes the
    device still accepts, a write beyond it is short and returns an error;
  \<^item> \<open>clock\<close> is what \<open>currentTime()\<close> returns, \<open>slept\<close> the milliseconds spent in
    \<open>time.Sleep\<close>, and \<open>pending\<close> the deletions handed to goroutines (\<open>go deleteAll(...)\<close>)
    that have not run yet.
  Parent directories are not tracked: \<open>os.MkdirAll\<close> changes nothing unless it fails.
\<close>

datatype opname =
  OpStat | OpMkdirAll | OpOpen | OpClose | OpRename | OpRemove | OpChown
  | OpRead | OpTruncate | OpSeek | OpReadFile | OpReadDir

datatype errno = ENOENT | EISDIR | ENOTDIR | ENOSPC | EIO | EINVAL

datatype oflag = O_CREATE | O_TRUNC | O_APPEND | O_RDWR | O_WRONLY

datatype node = Directory | Regular nat

record inode =
  content :: string
  perm :: nat
  owner :: "nat \<times> nat"

record FileInfo =
  fi_name :: string
  fi_size :: nat
  fi_mode :: nat
  fi_isDir :: bool
  fi_owner :: "nat \<times> nat"

record handle =
  h_ino :: nat
  h_pos :: nat
  h_append :: bool

record world =
  entries :: "(path \<times> node) list"
  inodes :: "nat \<Rightarrow> inode"
  next_ino :: nat
  faults :: "opname \<Rightarrow> nat"
  disk_free :: nat
  clock :: time
  slept :: nat
  pending :: "(string \<times> string list) list"
  tempdir :: string
  progname :: string
  proc_owner :: "nat \<times> nat"

definition lookup :: "world \<Rightarrow> path \<Rightarrow> node option" where
  "lookup w p = map_of (entries w) p"

definition fail :: "opname \<Rightarrow> world \<Rightarrow> bool" where
  "fail op w = (0 < faults w op)"

definition spend :: "opname \<Rightarrow> world \<Rightarrow> world" where
  "spend op w = w\<lparr>faults := (faults w)(op := faults w op - 1)\<rparr>"

definition no_faults :: "world \<Rightarrow> bool" where
  "no_faults w = (\<forall>op. faults w op = 0)"

definition info_of :: "string \<Rightarrow> inode \<Rightarrow> FileInfo" where
  "info_of name f =
     \<lparr>fi_name = name, fi_size = length (content f), fi_mode = perm f, fi_isDir = False,
      fi_owner = owner f\<rparr>"

definition dir_info :: "string \<Rightarrow> FileInfo" where
  "dir_info name = \<lparr>fi_name = name, fi_size = 0, fi_mode = 0, fi_isDir = True, fi_owner = (0, 0)\<rparr>"

definition node_info :: "world \<Rightarrow> string \<Rightarrow> node \<Rightarrow> FileInfo" where
  "node_info w name n = (case n of Directory \<Rightarrow> dir_info name | Regular i \<Rightarrow> info_of name (inodes w i))"

definition os_Stat :: "path \<Rightarrow> world \<Rightarrow> (errno + FileInfo) \<times> world" where
  "os_Stat p w =
     (if fail OpStat w then (Inl EIO, spend OpStat w)
      else case lookup w p of
             None \<Rightarrow> (Inl ENOENT, w)
           | Some n \<Rightarrow> (Inr (node_info w (Base p) n), w))"

definition os_MkdirAll :: "string \<Rightarrow> nat \<Rightarrow> world \<Rightarrow> errno option \<times> world" where
  "os_MkdirAll d mode w = (if fail OpMkdirAll w then (Some EIO, spend OpMkdirAll w) else (None, w))"

definition set_content :: "nat \<Rightarrow> string \<Rightarrow> world \<Rightarrow> world" where
  "set_content i bs w = w\<lparr>inodes := (inodes w)(i := (inodes w i)\<lparr>content := bs\<rparr>)\<rparr>"

definition create_file :: "path \<Rightarrow> nat \<Rightarrow> world \<Rightarrow> world" where
  "create_file p mode w =
     w\<lparr>entries := AList.update p (Regular (next_ino w)) (entries w),
       inodes := (inodes w)(next_ino w := \<lparr>content = [], perm = mode, owner = proc_owner w\<rparr>),
       next_ino := Suc (next_ino w)\<rparr>"

definition os_OpenFile :: "path \<Rightarrow> oflag set \<Rightarrow> nat \<Rightarrow> world \<Rightarrow> (errno + handle) \<times> world" where
  "os_OpenFile p flags mode w =
     (if fail OpOpen w then (Inl EIO, spend OpOpen w)
      else case lookup w p of
             Some Directory \<Rightarrow> (Inl EISDIR, w)
           | Some (Regular i) \<Rightarrow>
               (Inr \<lparr>h_ino = i, h_pos = 0, h_append = (O_APPEND \<in> flags)\<rparr>,
                if O_TRUNC \<in> flags then set_content i [] w else w)
           | None \<Rightarrow>
               if O_CREATE \<in> flags
               then (Inr \<lparr>h_ino = next_ino w, h_pos = 0, h_append = (O_APPEND \<in> flags)\<rparr>,
                     create_file p mode w)
               else (Inl ENOENT, w))"

text \<open>
  Closing: \<open>Close\<close> on a nil \<open>*os.File\<close> returns \<open>ErrInvalid\<close> and does nothing.
\<close>

definition File_Close :: "handle option \<Rightarrow> world \<Rightarrow> errno option \<times> world" where
  "File_Close f w =
     (case f of
        None \<Rightarrow> (Some EINVAL, w)
      | Some h \<Rightarrow> if fail OpClose w then (Some EIO, spend OpClose w) else (None, w))"

text \<open>Writing \<open>bs\<close> at offset \<open>pos\<close> of a file holding \<open>old\<close>; a gap is filled with zero bytes.\<close>

definition store :: "nat \<Rightarrow> string \<Rightarrow> string \<Rightarrow> string" where
  "store pos bs old =
     take pos old @ replicate (pos - length old) (CHR 0x00) @ bs @ drop (pos + length bs) old"

definition File_Write :: "handle \<Rightarrow> string \<Rightarrow> world \<Rightarrow> (nat \<times> errno option) \<times> handle \<times> world" where
  "File_Write h p w =
     (let bs = take (disk_free w) p;
          old = content (inodes w (h_ino h));
          at = (if h_append h then length old else h_pos h)
      in ((length bs, if length bs < length p then Some ENOSPC else None),
          h\<lparr>h_pos := at + length bs\<rparr>,
          (set_content (h_ino h) (store at bs old) w)\<lparr>disk_free := disk_free w - length bs\<rparr>))"

text \<open>\<open>io.Copy(dst, src)\<close>: everything from the position of \<open>src\<close> to its end is written to \<open>dst\<close>.\<close>

definition io_Copy :: "handle \<Rightarrow> handle \<Rightarrow> world \<Rightarrow> errno option \<times> handle \<times> world" where
  "io_Copy dst src w =
     (if fail OpRead w then (Some EIO, dst, spend OpRead w)
      else case File_Write dst (drop (h_pos src) (content (inodes w (h_ino src)))) w of
             ((n, err), dst', w') \<Rightarrow> (err, dst', w'))"

definition File_Truncate :: "handle \<Rightarrow> nat \<Rightarrow> world \<Rightarrow> errno option \<times> world" where
  "File_Truncate h n w =
     (if fail OpTruncate w then (Some EIO, spend OpTruncate w)
      else (None, set_content (h_ino h) (store n [] (take n (content (inodes w (h_ino h))))) w))"

definition File_Seek :: "handle \<Rightarrow> nat \<Rightarrow> world \<Rightarrow> (errno + handle) \<times> world" where
  "File_Seek h n w =
     (if fail OpSeek w then (Inl EIO, spend OpSeek w) else (Inr (h\<lparr>h_pos := n\<rparr>), w))"

definition os_Rename :: "path \<Rightarrow> path \<Rightarrow> world \<Rightarrow> errno option \<times> world" where
  "os_Rename old new w =
     (if fail OpRename w then (Some EIO, spend OpRename w)
      else case lookup w old of
             None \<Rightarrow> (Some ENOENT, w)
           | Some n \<Rightarrow>
               if old = new then (None, w)
               else if n \<noteq> Directory \<and> lookup w new = Some Directory then (Some EISDIR, w)
               else if n = Directory \<and> lookup w new \<noteq> None \<and> lookup w new \<noteq> Some Directory
                    then (Some ENOTDIR, w)
               else (None, w\<lparr>entries := AList.update new n (AList.delete old (entries w))\<rparr>))"

definition os_Remove :: "path \<Rightarrow> world \<Rightarrow> errno option \<times> world" where
  "os_Remove p w =
     (if fail OpRemove w then (Some EIO, spend OpRemove w)
      else case lookup w p of
             None \<Rightarrow> (Some ENOENT, w)
           | Some n \<Rightarrow> (None, w\<lparr>entries := AList.delete p (entries w)\<rparr>))"

definition os_Chown :: "path \<Rightarrow> nat \<times> nat \<Rightarrow> world \<Rightarrow> errno option \<times> world" where
  "os_Chown p ug w =
     (if fail OpChown w then (Some EIO, spend OpChown w)
      else case lookup w p of
             None \<Rightarrow> (Some ENOENT, w)
           | Some Directory \<Rightarrow> (None, w)
           | Some (Regular i) \<Rightarrow> (None, w\<lparr>inodes := (inodes w)(i := (inodes w i)\<lparr>owner := ug\<rparr>)\<rparr>))"

definition ioutil_ReadFile :: "path \<Rightarrow> world \<Rightarrow> (errno + string) \<times> world" where
  "ioutil_ReadFile p w =
     (if fail OpReadFile w then (Inl EIO, spend OpReadFile w)
      else case lookup w p of
             None \<Rightarrow> (Inl ENOENT, w)
           | Some Directory \<Rightarrow> (Inl EISDIR, w)
           | Some (Regular i) \<Rightarrow> (Inr (content (inodes w i)), w))"

text \<open>
  \<open>ioutil.ReadDir\<close> lists the entries of a directory. Go returns them sorted by name; the
  model returns them in the order of the table (the logger sorts them again, by time stamp).
\<close>

definition ioutil_ReadDir :: "string \<Rightarrow> world \<Rightarrow> (errno + FileInfo list) \<times> world" where
  "ioutil_ReadDir d w =
     (if fail OpReadDir w then (Inl EIO, spend OpReadDir w)
      else (Inr (map (\<lambda>(p, n). node_info w (Base p) n) (filter (\<lambda>(p, n). Dir p = d) (entries w))), w))"

definition time_Sleep :: "nat \<Rightarrow> world \<Rightarrow> world" where
  "time_Sleep ms w = w\<lparr>slept := slept w + ms\<rparr>"

definition currentTime :: "world \<Rightarrow> time" where
  "currentTime w = clock w"

section \<open>The logger\<close>

text \<open>
  Errors are values: an error of the operating system as it is, or wrapped by one of the
  messages of the logger (\<open>fmt.Errorf\<close>); a method call on a nil interface is a panic.
  \<open>Filename\<close> is \<open>None\<close> for the empty string, for which the logger uses a default name.
  \<open>lines\<close> is an \<open>int64\<close> that the program only increments from 0; it is modelled by \<open>int\<close>.
\<close>

datatype error =
  Errno errno | CantMakeDirs errno | CantOpenNew errno | CantRename errno
  | CantGetInfo errno | CantReadDir errno | NilDereference

record Logger =
  Filename :: "path option"
  MaxLines :: int
  MaxBackups :: int
  CopyTruncate :: bool
  Sequential :: bool
  lines :: int
  "file" :: "handle option"

record logInfo =
  timestamp :: time
  info :: FileInfo

definition defaultMaxLines :: int where
  "defaultMaxLines = 10"

definition max' :: "Logger \<Rightarrow> int" where
  "max' l = (if MaxLines l = 0 then defaultMaxLines else MaxLines l)"

definition filename :: "Logger \<Rightarrow> world \<Rightarrow> path" where
  "filename l w =
     (case Filename l of
        Some p \<Rightarrow> p
      | None \<Rightarrow> Join (tempdir w) (progname w @ ''-nanojack.log''))"

definition dir :: "Logger \<Rightarrow> world \<Rightarrow> string" where
  "dir l w = Dir (filename l w)"

definition prefixAndExt :: "Logger \<Rightarrow> world \<Rightarrow> string \<times> string" where
  "prefixAndExt l w =
     (let filename = Base (filename l w);
          ext = Ext filename;
          prefix = take (length filename - length ext) filename @ ''-''
      in (prefix, ext))"

definition timeFromName :: "string \<Rightarrow> string \<Rightarrow> string \<Rightarrow> string" where
  "timeFromName fname prefix ext =
     (if \<not> HasPrefix fname prefix then []
      else let fname1 = drop (length prefix) fname
           in if \<not> HasSuffix fname1 ext then []
              else take (length fname1 - length ext) fname1)"

definition timestampedBackupName :: "Logger \<Rightarrow> world \<Rightarrow> path" where
  "timestampedBackupName l w =
     (let name = filename l w;
          dir = Dir name;
          filename = Base name;
          ext = Ext filename;
          prefix = take (length filename - length ext) filename;
          t = UTC (currentTime w);
          timestamp = Format t
      in Join dir (prefix @ ''-'' @ timestamp @ ext))"

definition close :: "Logger \<Rightarrow> world \<Rightarrow> error option \<times> Logger \<times> world" where
  "close l w =
     (case file l of
        None \<Rightarrow> (None, l, w)
      | Some h \<Rightarrow>
          (case File_Close (Some h) w of (err, w1) \<Rightarrow> (map_option Errno err, l\<lparr>file := None\<rparr>, w1)))"

definition Close :: "Logger \<Rightarrow> world \<Rightarrow> error option \<times> Logger \<times> world" where
  "Close l w = close l w"

definition fileExists :: "path \<Rightarrow> world \<Rightarrow> bool \<times> world" where
  "fileExists p w = (case os_Stat p w of (Inl err, w1) \<Rightarrow> (False, w1) | (Inr i, w1) \<Rightarrow> (True, w1))"

definition Logger_fileExists :: "Logger \<Rightarrow> world \<Rightarrow> bool \<times> world" where
  "Logger_fileExists l w = fileExists (filename l w) w"

text \<open>\<open>0744\<close> is 484 and \<open>0644\<close> is 420.\<close>

definition initializeFile :: "Logger \<Rightarrow> world \<Rightarrow> error option \<times> Logger \<times> world" where
  "initializeFile l w =
     (case os_MkdirAll (dir l w) 484 w of
        (Some err, w1) \<Rightarrow> (Some (CantMakeDirs err), l, w1)
      | (None, w1) \<Rightarrow>
          (case os_OpenFile (filename l w1) {O_CREATE, O_WRONLY, O_TRUNC} 420 w1 of
             (Inl err, w2) \<Rightarrow> (Some (CantOpenNew err), l, w2)
           | (Inr f, w2) \<Rightarrow> (None, l\<lparr>file := Some f, lines := 0\<rparr>, w2)))"

definition chown :: "path \<Rightarrow> FileInfo \<Rightarrow> world \<Rightarrow> errno option \<times> world" where
  "chown name i w = os_Chown name (fi_owner i) w"

text \<open>
  \<open>move\<close> returns the \<open>FileInfo\<close> of \<open>os_Stat\<close> (nil when that failed) and the error.
\<close>

definition move :: "path \<Rightarrow> path \<Rightarrow> world \<Rightarrow> (FileInfo option \<times> error option) \<times> world" where
  "move from to w =
     (case os_Stat from w of
        (Inl err, w1) \<Rightarrow> ((None, Some (Errno err)), w1)
      | (Inr i, w1) \<Rightarrow>
          (case os_Rename from to w1 of
             (Some err, w2) \<Rightarrow> ((Some i, Some (CantRename err)), w2)
           | (None, w2) \<Rightarrow> ((Some i, None), w2)))"

text \<open>
  The \<open>for\<close> loop of \<open>moveCreate\<close>. Its body ends with a \<open>break\<close> that no condition guards,
  so the body runs once: the loop is left with the result of the first \<open>move\<close>, unless
  \<open>tries\<close> exceeds 20, which returns the error. The result is the error returned, or
  the \<open>info\<close> the loop is left with, together with \<open>tries\<close>.
\<close>

definition moveCreate_loop ::
  "nat \<Rightarrow> path \<Rightarrow> path \<Rightarrow> world \<Rightarrow> (error + FileInfo option) \<times> nat \<times> world" where
  "moveCreate_loop tries from to w =
     (case move from to w of
        ((i, Some err), w1) \<Rightarrow>
          if tries + 1 > 20 then (Inl err, tries + 1, w1)
          else (Inr i, tries + 1, time_Sleep 10 w1)
      | ((i, None), w1) \<Rightarrow> (Inr i, tries, w1))"

definition moveCreate_open :: "path \<Rightarrow> FileInfo \<Rightarrow> world \<Rightarrow> (error + handle) \<times> world" where
  "moveCreate_open from i w =
     (case os_OpenFile from {O_CREATE, O_WRONLY, O_TRUNC} (fi_mode i) w of
        (Inl err, w1) \<Rightarrow> (Inl (CantOpenNew err), w1)
      | (Inr f, w1) \<Rightarrow>
          (case chown from i w1 of
             (Some err, w2) \<Rightarrow> (Inl (Errno err), w2)
           | (None, w2) \<Rightarrow> (Inr f, w2)))"

definition moveCreate :: "path \<Rightarrow> path \<Rightarrow> world \<Rightarrow> (error + handle) \<times> world" where
  "moveCreate from to w =
     (case moveCreate_loop 0 from to w of
        (Inl err, tries, w1) \<Rightarrow> (Inl err, w1)
      | (Inr None, tries, w1) \<Rightarrow> (Inl NilDereference, w1)
      | (Inr (Some i), tries, w1) \<Rightarrow> moveCreate_open from i w1)"

text \<open>
  \<open>copyTruncate\<close>: the part after the two files are open (\<open>chown\<close>, \<open>io.Copy\<close>, \<open>Truncate\<close>,
  \<open>Seek\<close>), and the whole, which runs the deferred \<open>bkp.Close()\<close> on the way out.
\<close>

definition copyTruncate_reset :: "handle \<Rightarrow> world \<Rightarrow> (error + handle) \<times> world" where
  "copyTruncate_reset f w =
     (case File_Truncate f 0 w of
        (Some err, w1) \<Rightarrow> (Inl (Errno err), w1)
      | (None, w1) \<Rightarrow>
          (case File_Seek f 0 w1 of
             (Inl err, w2) \<Rightarrow> (Inl (Errno err), w2)
           | (Inr f', w2) \<Rightarrow> (Inr f', w2)))"

definition copyTruncate_copy ::
  "path \<Rightarrow> FileInfo \<Rightarrow> handle \<Rightarrow> handle \<Rightarrow> world \<Rightarrow> (error + handle) \<times> world" where
  "copyTruncate_copy to i f bkp w =
     (case chown to i w of
        (Some err, w1) \<Rightarrow> (Inl (Errno err), w1)
      | (None, w1) \<Rightarrow>
          (case io_Copy bkp f w1 of
             (Some err, bkp', w2) \<Rightarrow> (Inl (Errno err), w2)
           | (None, bkp', w2) \<Rightarrow> copyTruncate_reset f w2))"

definition copyTruncate_open ::
  "path \<Rightarrow> FileInfo \<Rightarrow> handle \<Rightarrow> world \<Rightarrow> (error + handle) \<times> world" where
  "copyTruncate_open to i f w =
     (case os_OpenFile to {O_CREATE, O_RDWR} (fi_mode i) w of
        (Inl err, w1) \<Rightarrow> (Inl (Errno err), w1)
      | (Inr bkp, w1) \<Rightarrow>
          (case copyTruncate_copy to i f bkp w1 of
             (r, w2) \<Rightarrow> (r, snd (File_Close (Some bkp) w2))))"

definition copyTruncate :: "path \<Rightarrow> path \<Rightarrow> world \<Rightarrow> (error + handle) \<times> world" where
  "copyTruncate from to w =
     (case os_Stat from w of
        (Inl err, w1) \<Rightarrow> (Inl (Errno err), w1)
      | (Inr i, w1) \<Rightarrow>
          (case os_OpenFile from {O_RDWR} (fi_mode i) w1 of
             (Inl err, w2) \<Rightarrow> (Inl (Errno err), w2)
           | (Inr f, w2) \<Rightarrow> copyTruncate_open to i f w2))"

definition doMove :: "path \<Rightarrow> path \<Rightarrow> bool \<Rightarrow> world \<Rightarrow> (error + handle) \<times> world" where
  "doMove from to copyTrunc w = (if copyTrunc then copyTruncate from to w else moveCreate from to w)"

subsection \<open>The cascade of sequential backups\<close>

text \<open>
  \<open>cascade\<close> calls itself on the next index as long as the backups with both indices
  exist. It terminates because the names of the backups are different for different indices
  and the table of entries is finite: the number of entries that are backups with an index
  of at least \<open>fromN\<close> decreases.
\<close>

lemma digit_val_digit_char: "d < 10 \<Longrightarrow> digit_val (digit_char d) = d"
  by (simp add: digit_val_def digit_char_def)

lemma isDigit_digit_char: "d < 10 \<Longrightarrow> isDigit (digit_char d)"
  by (simp add: isDigit_def digit_char_def)

lemma decval_snoc: "decval (s @ [c]) = 10 * decval s + digit_val c"
  by (simp add: decval_def)

lemma decimal_small: "n < 10 \<Longrightarrow> decimal n = [digit_char n]"
  using decimal.simps [of n] by simp

lemma decimal_large: "\<not> n < 10 \<Longrightarrow> decimal n = decimal (n div 10) @ [digit_char (n mod 10)]"
  using decimal.simps [of n] by simp

lemma decval_decimal: "decval (decimal n) = n"
proof (induction n rule: decimal.induct)
  case (1 n)
  show ?case
  proof (cases "n < 10")
    case True
    then show ?thesis by (simp add: decimal_small decval_def digit_val_digit_char)
  next
    case False
    then show ?thesis using 1 by (simp add: decimal_large decval_snoc digit_val_digit_char)
  qed
qed

lemma decimal_digits: "list_all isDigit (decimal n)"
proof (induction n rule: decimal.induct)
  case (1 n)
  show ?case
  proof (cases "n < 10")
    case True
    then show ?thesis by (simp add: decimal_small isDigit_digit_char)
  next
    case False
    then show ?thesis using 1 by (simp add: decimal_large isDigit_digit_char)
  qed
qed

lemma decimal_nonempty: "decimal n \<noteq> []"
  by (cases "n < 10") (simp_all add: decimal_small decimal_large)

lemma decimal_inj:
  assumes "decimal m = decimal n"
  shows "m = n"
proof -
  have "decval (decimal m) = decval (decimal n)" by (simp only: assms)
  then show ?thesis by (simp only: decval_decimal)
qed

lemma decimal_no_minus: "decimal n \<noteq> CHR ''-'' # s"
proof
  assume a: "decimal n = CHR ''-'' # s"
  have "list_all isDigit (decimal n)" by (rule decimal_digits)
  then have "isDigit (CHR ''-'')" unfolding a by simp
  then show False by (simp add: isDigit_def)
qed

lemma itoa_inj: "itoa m = itoa n \<Longrightarrow> m = n"
proof -
  assume a: "itoa m = itoa n"
  show "m = n"
  proof (cases "m < 0"; cases "n < 0")
    assume "m < 0" "n < 0"
    then have "decimal (nat (- m)) = decimal (nat (- n))" using a by (simp add: itoa_def)
    then have "nat (- m) = nat (- n)" by (rule decimal_inj)
    then show ?thesis using \<open>m < 0\<close> \<open>n < 0\<close> by simp
  next
    assume "m < 0" "\<not> n < 0"
    then show ?thesis using a decimal_no_minus [of "nat n" "decimal (nat (- m))"] by (simp add: itoa_def)
  next
    assume "\<not> m < 0" "n < 0"
    then show ?thesis using a decimal_no_minus [of "nat m" "decimal (nat (- n))"] by (simp add: itoa_def)
  next
    assume "\<not> m < 0" "\<not> n < 0"
    then have "decimal (nat m) = decimal (nat n)" using a by (simp add: itoa_def)
    then have "nat m = nat n" by (rule decimal_inj)
    then show ?thesis using \<open>\<not> m < 0\<close> \<open>\<not> n < 0\<close> by simp
  qed
qed

lemma seqName_inj: "seqName name m = seqName name n \<Longrightarrow> m = n"
  by (simp add: seqName_def itoa_inj)

lemma seqName_neq: "seqName name n \<noteq> name"
  by (cases name) (simp add: seqName_def)

lemma os_Stat_entries: "entries (snd (os_Stat p w)) = entries w"
  by (cases "lookup w p") (simp_all add: os_Stat_def spend_def)

lemma fileExists_entries: "fileExists p w = (b, w') \<Longrightarrow> entries w' = entries w"
  using os_Stat_entries [of p w]
  by (cases "os_Stat p w"; cases "fst (os_Stat p w)") (auto simp: fileExists_def)

lemma fileExists_True:
  assumes "fileExists p w = (True, w')"
  shows "p \<in> fst ` set (entries w)"
proof -
  from assms obtain n where "map_of (entries w) p = Some n"
    by (cases "lookup w p")
       (auto simp: fileExists_def os_Stat_def lookup_def split: if_splits)
  then have "(p, n) \<in> set (entries w)" by (rule map_of_SomeD)
  then show ?thesis by force
qed


text \<open>\<open>move\<close> where only its error is used.\<close>

definition move_err :: "path \<Rightarrow> path \<Rightarrow> world \<Rightarrow> error option \<times> world" where
  "move_err from to w = (case move from to w of ((i, err), w1) \<Rightarrow> (err, w1))"

function cascade :: "path \<Rightarrow> int \<Rightarrow> world \<Rightarrow> error option \<times> world" where
  "cascade name fromN w =
     (let from = seqName name fromN;
          to = seqName name (fromN + 1);
          (ex1, w1) = fileExists from w
      in if \<not> ex1 then (None, w1)
         else let (ex2, w2) = fileExists to w1;
                  (err, w3) = (if ex2 then cascade name (fromN + 1) w2 else (None, w2))
              in if err \<noteq> None then (err, w3) else move_err from to w3)"
  by pat_completeness auto

definition later_backups :: "path \<Rightarrow> int \<Rightarrow> world \<Rightarrow> nat" where
  "later_backups name n w = length (filter (\<lambda>e. \<exists>k\<ge>n. fst e = seqName name k) (entries w))"

lemma later_backups_less:
  assumes "seqName name n \<in> fst ` set (entries w)" and "entries w' = entries w"
  shows "later_backups name (n + 1) w' < later_backups name n w"
proof -
  let ?P = "\<lambda>e. \<exists>k\<ge>n + 1. fst e = seqName name k"
  let ?Q = "\<lambda>e. \<exists>k\<ge>n. fst e = seqName name k"
  obtain e where e: "e \<in> set (entries w)" "fst e = seqName name n"
    using assms(1) by auto
  have notP: "\<not> ?P e"
  proof
    assume "?P e"
    then obtain k where "k \<ge> n + 1" "seqName name n = seqName name k" using e(2) by auto
    then show False using seqName_inj [of name n k] by simp
  qed
  have "e \<in> set (filter ?Q (entries w))" using e by auto
  with notP have "length (filter ?P (filter ?Q (entries w))) < length (filter ?Q (entries w))"
    by (rule_tac length_filter_less)
  moreover have "?Q x" if "?P x" for x
  proof -
    from that obtain k where k: "n + 1 \<le> k" "fst x = seqName name k" by blast
    from k(1) have "n \<le> k" by simp
    with k(2) show ?thesis by blast
  qed
  then have "filter ?P (filter ?Q (entries w)) = filter ?P (entries w)"
    by (simp only: filter_filter) (rule filter_cong, rule refl, blast)
  ultimately show ?thesis using assms(2) by (simp add: later_backups_def)
qed

lemma cascade_measure:
  assumes "(True, y) = fileExists (seqName name fromN) w"
    and "(True, ya) = fileExists (seqName name (fromN + 1)) y"
  shows "later_backups name (fromN + 1) ya < later_backups name fromN w"
proof -
  have "seqName name fromN \<in> fst ` set (entries w)"
    using assms(1) by (intro fileExists_True [of _ w y]) simp
  moreover have "entries y = entries w"
    using assms(1) by (intro fileExists_entries [of "seqName name fromN" w True y]) simp
  moreover have "entries ya = entries y"
    using assms(2) by (intro fileExists_entries [of "seqName name (fromN + 1)" y True ya]) simp
  ultimately show ?thesis by (intro later_backups_less) simp_all
qed

termination cascade
  apply (relation "measure (\<lambda>(name, n, w). later_backups name n w)")
   apply simp
  apply (simp add: cascade_measure)
  done

declare cascade.simps [simp del]


text \<open>
  \<open>backupSequential\<close> ignores the results of \<open>os.Remove\<close>, of \<open>cascade\<close> and of
  \<open>l.file.Close()\<close>.
\<close>

definition backupSequential_free :: "Logger \<Rightarrow> path \<Rightarrow> world \<Rightarrow> world" where
  "backupSequential_free l name w =
     (if MaxBackups l = 0 then snd (cascade name 1 w)
      else let maxBackupName = seqName name (MaxBackups l);
               (ex, w1) = fileExists maxBackupName w;
               w2 = (if ex then snd (os_Remove maxBackupName w1) else w1)
           in snd (cascade name 1 w2))"

definition backupSequential :: "Logger \<Rightarrow> world \<Rightarrow> (error + handle) \<times> world" where
  "backupSequential l w =
     (let name = filename l w;
          w1 = backupSequential_free l name w;
          w2 = snd (File_Close (file l) w1)
      in doMove name (seqName name 1) (CopyTruncate l) w2)"

definition backup :: "Logger \<Rightarrow> world \<Rightarrow> error option \<times> Logger \<times> world" where
  "backup l w =
     (case (if Sequential l then backupSequential l w
            else let w1 = snd (File_Close (file l) w)
                 in doMove (filename l w1) (timestampedBackupName l w1) (CopyTruncate l) w1) of
        (Inl err, w2) \<Rightarrow> (Some err, l, w2)
      | (Inr f, w2) \<Rightarrow> (None, l\<lparr>file := Some f, lines := 0\<rparr>, w2))"

subsection \<open>Cleaning up old backups\<close>

text \<open>
  \<open>sort.Sort\<close> leaves the order of elements that compare equal open; the model sorts by
  insertion. \<open>byFormatTime_Less\<close> is the \<open>Less\<close> of \<open>byFormatTime\<close>.
\<close>

definition byFormatTime_Less :: "logInfo \<Rightarrow> logInfo \<Rightarrow> bool" where
  "byFormatTime_Less a b = After (timestamp a) (timestamp b)"

fun sort_insert :: "('a \<Rightarrow> 'a \<Rightarrow> bool) \<Rightarrow> 'a \<Rightarrow> 'a list \<Rightarrow> 'a list" where
  "sort_insert lt x [] = [x]"
| "sort_insert lt x (y # ys) = (if lt x y then x # y # ys else y # sort_insert lt x ys)"

definition sort_Sort :: "('a \<Rightarrow> 'a \<Rightarrow> bool) \<Rightarrow> 'a list \<Rightarrow> 'a list" where
  "sort_Sort lt xs = foldr (sort_insert lt) xs []"

text \<open>
  One round of the loop of \<open>oldLogFiles\<close>: the entry \<open>f\<close> of the directory is a backup when
  it is not a directory, its name has the prefix and the extension of the log file around a
  non-empty text, and that text parses as a time stamp.
\<close>

definition oldLogFiles_entry :: "string \<Rightarrow> string \<Rightarrow> FileInfo \<Rightarrow> logInfo option" where
  "oldLogFiles_entry prefix ext f =
     (if fi_isDir f then None
      else let name = timeFromName (fi_name f) prefix ext
           in if name = [] then None
              else case Parse name of
                     None \<Rightarrow> None
                   | Some t \<Rightarrow> Some \<lparr>timestamp = t, info = f\<rparr>)"

definition oldLogFiles :: "Logger \<Rightarrow> world \<Rightarrow> (error + logInfo list) \<times> world" where
  "oldLogFiles l w =
     (case ioutil_ReadDir (dir l w) w of
        (Inl err, w1) \<Rightarrow> (Inl (CantReadDir err), w1)
      | (Inr files, w1) \<Rightarrow>
          (let (prefix, ext) = prefixAndExt l w1
           in (Inr (sort_Sort byFormatTime_Less (List.map_filter (oldLogFiles_entry prefix ext) files)),
               w1)))"

text \<open>
  \<open>deleteAll\<close> removes the files and ignores the errors. \<open>go deleteAll(dir, deletes)\<close> only
  hands the deletion over: it is added to \<open>pending\<close>, and \<open>run_pending\<close> is what the
  goroutines do when they run.
\<close>

definition deleteAll :: "string \<Rightarrow> string list \<Rightarrow> world \<Rightarrow> world" where
  "deleteAll d names w = fold (\<lambda>n w'. snd (os_Remove (Join d n) w')) names w"

definition go_deleteAll :: "string \<Rightarrow> logInfo list \<Rightarrow> world \<Rightarrow> world" where
  "go_deleteAll d files w = w\<lparr>pending := pending w @ [(d, map (\<lambda>f. fi_name (info f)) files)]\<rparr>"

definition run_pending :: "world \<Rightarrow> world" where
  "run_pending w = fold (\<lambda>(d, names) w'. deleteAll d names w') (pending w) (w\<lparr>pending := []\<rparr>)"

definition cleanup :: "Logger \<Rightarrow> world \<Rightarrow> error option \<times> world" where
  "cleanup l w =
     (if MaxBackups l = 0 then (None, w)
      else case oldLogFiles l w of
             (Inl err, w1) \<Rightarrow> (Some err, w1)
           | (Inr files, w1) \<Rightarrow>
               (let deletes = (if MaxBackups l > 0 \<and> MaxBackups l < int (length files)
                               then drop (nat (MaxBackups l)) files else [])
                in if deletes = [] then (None, w1)
                   else (None, go_deleteAll (dir l w1) deletes w1)))"

subsection \<open>Rotating and writing\<close>

definition rotate_cleanup :: "Logger \<Rightarrow> world \<Rightarrow> error option \<times> Logger \<times> world" where
  "rotate_cleanup l w =
     (if Sequential l then (None, l, w)
      else case cleanup l w of (err, w1) \<Rightarrow> (err, l, w1))"

definition rotate' :: "Logger \<Rightarrow> world \<Rightarrow> error option \<times> Logger \<times> world" where
  "rotate' l w =
     (case close l w of
        (Some err, l1, w1) \<Rightarrow> (Some err, l1, w1)
      | (None, l1, w1) \<Rightarrow>
          (case Logger_fileExists l1 w1 of
             (ex, w2) \<Rightarrow>
               (case (if ex then backup l1 w2 else initializeFile l1 w2) of
                  (Some err, l3, w3) \<Rightarrow> (Some err, l3, w3)
                | (None, l3, w3) \<Rightarrow> rotate_cleanup l3 w3)))"


definition linesInFile :: "path \<Rightarrow> world \<Rightarrow> (error + int) \<times> world" where
  "linesInFile p w =
     (case ioutil_ReadFile p w of
        (Inl err, w1) \<Rightarrow> (Inl (Errno err), w1)
      | (Inr contents, w1) \<Rightarrow>
          (Inr (int (length (FieldsFunc contents (\<lambda>c. c = newline)))), w1))"

text \<open>The part of \<open>openExistingOrNew\<close> that opens the existing file and counts its lines.\<close>

definition openExistingOrNew_append :: "Logger \<Rightarrow> world \<Rightarrow> error option \<times> Logger \<times> world" where
  "openExistingOrNew_append l w =
     (case os_OpenFile (filename l w) {O_APPEND, O_WRONLY} 420 w of
        (Inl err, w1) \<Rightarrow> initializeFile l w1
      | (Inr f, w1) \<Rightarrow>
          (case linesInFile (filename l w1) w1 of
             (Inl err, w2) \<Rightarrow> initializeFile (l\<lparr>file := Some f, lines := 0\<rparr>) w2
           | (Inr n, w2) \<Rightarrow> (None, l\<lparr>file := Some f, lines := n\<rparr>, w2)))"

definition openExistingOrNew :: "Logger \<Rightarrow> world \<Rightarrow> error option \<times> Logger \<times> world" where
  "openExistingOrNew l w =
     (case os_Stat (filename l w) w of
        (Inl err, w1) \<Rightarrow>
          if err = ENOENT then initializeFile l w1 else (Some (CantGetInfo err), l, w1)
      | (Inr i, w1) \<Rightarrow>
          if int (fi_size i) + 1 > max' l then rotate' l w1
          else openExistingOrNew_append l w1)"

text \<open>
  \<open>Write\<close>, in its three steps: open the file when none is open, rotate when the line would
  be one too many, write. \<open>Write\<close> on a nil \<open>*os.File\<close> returns \<open>ErrInvalid\<close>.
\<close>

definition Write_open :: "Logger \<Rightarrow> world \<Rightarrow> error option \<times> Logger \<times> world" where
  "Write_open l w = (if file l = None then openExistingOrNew l w else (None, l, w))"

definition Write_rotate :: "Logger \<Rightarrow> world \<Rightarrow> error option \<times> Logger \<times> world" where
  "Write_rotate l w = (if lines l + 1 > max' l then rotate' l w else (None, l, w))"

definition Write_file :: "Logger \<Rightarrow> string \<Rightarrow> world \<Rightarrow> (nat \<times> error option) \<times> Logger \<times> world" where
  "Write_file l p w =
     (case file l of
        None \<Rightarrow> ((0, Some (Errno EINVAL)), l\<lparr>lines := lines l + 1\<rparr>, w)
      | Some h \<Rightarrow>
          (case File_Write h p w of
             ((n, err), h', w1) \<Rightarrow>
               ((n, map_option Errno err), l\<lparr>file := Some h', lines := lines l + 1\<rparr>, w1)))"

definition Write :: "Logger \<Rightarrow> string \<Rightarrow> world \<Rightarrow> (nat \<times> error option) \<times> Logger \<times> world" where
  "Write l p w =
     (case Write_open l w of
        (Some err, l1, w1) \<Rightarrow> ((0, Some err), l1, w1)
      | (None, l1, w1) \<Rightarrow>
          (case Write_rotate l1 w1 of
             (Some err, l2, w2) \<Rightarrow> ((0, Some err), l2, w2)
           | (None, l2, w2) \<Rightarrow> Write_file l2 p w2))"

section \<open>Reference definitions and example states\<close>

text \<open>
  \<open>segments d s\<close> are the pieces of \<open>s\<close> between the occurrences of the delimiter \<open>d\<close>,
  the empty ones included: the delimiter-separated segments of a file.
\<close>

fun segments :: "char \<Rightarrow> string \<Rightarrow> string list" where
  "segments d [] = [[]]"
| "segments d (c # cs) =
     (if c = d then [] # segments d cs
      else (case segments d cs of [] \<Rightarrow> [[c]] | x # xs \<Rightarrow> (c # x) # xs))"

text \<open>
  A world without faults for the examples: the entries \<open>es\<close>, the file with inode \<open>i\<close>
  holding \<open>cs i\<close>, and a logger with the default settings on \<open>/var/log/foobar.log\<close>.
\<close>

definition example_clock :: time where
  "example_clock = \<lparr>year = 2020, month = 10, day = 20, hour = 15, minute = 4, second = 5, nsec = 0\<rparr>"

definition example_world :: "(path \<times> node) list \<Rightarrow> (nat \<Rightarrow> string) \<Rightarrow> world" where
  "example_world es cs =
     \<lparr>entries = es, inodes = (\<lambda>i. \<lparr>content = cs i, perm = 420, owner = (0, 0)\<rparr>),
      next_ino = length es, faults = (\<lambda>op. 0), disk_free = 1000, clock = example_clock,
      slept = 0, pending = [], tempdir = ''/tmp'', progname = ''app'', proc_owner = (0, 0)\<rparr>"

definition example_logger :: Logger where
  "example_logger =
     \<lparr>Filename = Some (''/var/log'', ''foobar.log''), MaxLines = 0, MaxBackups = 0,
      CopyTruncate = False, Sequential = False, lines = 0, file = None\<rparr>"

text \<open>
  The number of non-empty segments between newline characters, and a world in which the
  log file of the example logger exists and holds \<open>cs\<close>.
\<close>

definition nonempty_segments :: "string \<Rightarrow> nat" where
  "nonempty_segments s = length (filter (\<lambda>seg. seg \<noteq> []) (segments newline s))"

definition existing_log_world :: "string \<Rightarrow> world" where
  "existing_log_world cs = example_world [((''/var/log'', ''foobar.log''), Regular 0)] (\<lambda>i. cs)"

text \<open>
  A logger that has its file open after three lines, and a device that accepts two more bytes.
\<close>

definition open_logger :: Logger where
  "open_logger = example_logger\<lparr>lines := 3, file := Some \<lparr>h_ino = 0, h_pos = 0, h_append = True\<rparr>\<rparr>"

definition full_disk_world :: world where
  "full_disk_world = (existing_log_world ''a'')\<lparr>disk_free := 2\<rparr>"

text \<open>
  The world of the example in which the next \<open>k\<close> calls of \<open>os.Rename\<close> fail, and a
  line of 21 bytes.
\<close>

definition rename_fault_world :: "nat \<Rightarrow> world" where
  "rename_fault_world k =
     (existing_log_world ''old'')\<lparr>faults := (\<lambda>op. if op = OpRename then k else 0)\<rparr>"

definition long_line :: string where
  "long_line = ''twenty bytes in line'' @ [newline]"


section \<open>Facts about the file system and the names of the logger\<close>


lemma no_faults_fail [simp]: "no_faults w \<Longrightarrow> \<not> fail op w"
  by (simp add: no_faults_def fail_def)

lemma no_faults_set_content [simp]: "no_faults (set_content i c w) = no_faults w"
  by (simp add: no_faults_def set_content_def)

lemma no_faults_create_file [simp]: "no_faults (create_file p m w) = no_faults w"
  by (simp add: no_faults_def create_file_def)

lemma lookup_create_file [simp]:
  "lookup (create_file p m w) q = (if q = p then Some (Regular (next_ino w)) else lookup w q)"
  by (simp add: lookup_def create_file_def update_conv')


lemma filename_update [simp]:
  "filename l (entries_update f1 w) = filename l w"
  "filename l (inodes_update f2 w) = filename l w"
  "filename l (next_ino_update f3 w) = filename l w"
  "filename l (faults_update f4 w) = filename l w"
  "filename l (disk_free_update f5 w) = filename l w"
  "filename l (slept_update f6 w) = filename l w"
  "filename l (pending_update f7 w) = filename l w"
  by (simp_all add: filename_def split: option.splits)

lemma filename_create_file [simp]: "filename l (create_file p m w) = filename l w"
  by (simp add: create_file_def)

lemma filename_set_content [simp]: "filename l (set_content i c w) = filename l w"
  by (simp add: set_content_def)

lemma filename_spend [simp]: "filename l (spend op w) = filename l w"
  by (simp add: spend_def)

lemma filename_Logger_update [simp]:
  "filename (l\<lparr>file := f\<rparr>) w = filename l w"
  "filename (l\<lparr>lines := n\<rparr>) w = filename l w"
  by (simp_all add: filename_def)

lemma dir_update [simp]:
  "dir (l\<lparr>file := f\<rparr>) w = dir l w"
  "dir (l\<lparr>lines := n\<rparr>) w = dir l w"
  "dir l (create_file p m w) = dir l w"
  by (simp_all add: dir_def)

lemma Format_example_clock: "Format example_clock = ''2020-10-20T15-04-05.000000000''"
  by code_simp

lemma Ext_foobar_log: "Ext ''foobar.log'' = ''.log''"
  by code_simp

lemma example_backup_name:
  "clock w = example_clock \<Longrightarrow>
   timestampedBackupName example_logger w = (''/var/log'', ''foobar-2020-10-20T15-04-05.000000000.log'')"
  by (simp add: timestampedBackupName_def filename_def example_logger_def Dir_def Base_def
      Ext_foobar_log UTC_def currentTime_def Format_example_clock Join_def)

lemma length_long_line: "length long_line = 21"
  by (simp add: long_line_def)

section \<open>Counting the lines of an existing file\<close>

lemma segments_nonempty: "segments d s \<noteq> []"
  by (induction s) (auto split: list.splits)

lemma FieldsFunc_acc_segments:
  "FieldsFunc_acc (\<lambda>c. c = d) acc s =
     filter (\<lambda>x. x \<noteq> []) ((rev acc @ hd (segments d s)) # tl (segments d s))"
proof (induction s arbitrary: acc)
  case Nil
  then show ?case by simp
next
  case (Cons c cs)
  show ?case
  proof (cases "c = d")
    case True
    then show ?thesis using Cons.IH [of "[]"] segments_nonempty [of d cs]
      by (cases "segments d cs") auto
  next
    case False
    then show ?thesis using Cons.IH [of "c # acc"] segments_nonempty [of d cs]
      by (cases "segments d cs") auto
  qed
qed

lemma FieldsFunc_segments:
  "FieldsFunc s (\<lambda>c. c = d) = filter (\<lambda>x. x \<noteq> []) (segments d s)"
  using FieldsFunc_acc_segments [of d "[]" s] segments_nonempty [of d s]
  by (cases "segments d s") (auto simp: FieldsFunc_def)

lemma segments_split: "segments d (a @ d # b) = segments d a @ segments d b"
proof (induction a)
  case Nil
  then show ?case by simp
next
  case (Cons c a)
  then show ?case using segments_nonempty [of d a]
    by (cases "segments d a") auto
qed

lemma segments_plain: "d \<notin> set s \<Longrightarrow> segments d s = [s]"
  by (induction s) auto

lemma FieldsFunc_split:
  "FieldsFunc (a @ d # b) (\<lambda>c. c = d) = FieldsFunc a (\<lambda>c. c = d) @ FieldsFunc b (\<lambda>c. c = d)"
  by (simp add: FieldsFunc_segments segments_split)

lemma FieldsFunc_plain: "s \<noteq> [] \<Longrightarrow> d \<notin> set s \<Longrightarrow> FieldsFunc s (\<lambda>c. c = d) = [s]"
  by (simp add: FieldsFunc_segments segments_plain)

lemma FieldsFunc_delimiters: "FieldsFunc (replicate n d) (\<lambda>c. c = d) = []"
  by (induction n) (simp_all add: FieldsFunc_def)

lemma nonempty_segments_FieldsFunc:
  "length (FieldsFunc s (\<lambda>c. c = newline)) = nonempty_segments s"
  by (simp add: FieldsFunc_segments nonempty_segments_def)

lemma nonempty_segments_split:
  "nonempty_segments (a @ newline # b) = nonempty_segments a + nonempty_segments b"
  by (simp add: nonempty_segments_def segments_split)

lemma nonempty_segments_delimiters: "nonempty_segments (replicate n newline) = 0"
  using FieldsFunc_delimiters [of n newline] by (simp add: nonempty_segments_FieldsFunc [symmetric])

lemma nonempty_segments_plain: "s \<noteq> [] \<Longrightarrow> newline \<notin> set s \<Longrightarrow> nonempty_segments s = 1"
  by (simp add: nonempty_segments_def segments_plain)

lemma nonempty_segments_Nil: "nonempty_segments [] = 0"
  by (simp add: nonempty_segments_def)

lemma nonempty_segments_leading: "nonempty_segments (newline # a) = nonempty_segments a"
  using nonempty_segments_split [of "[]" a] by (simp add: nonempty_segments_Nil)

lemma nonempty_segments_trailing: "nonempty_segments (a @ [newline]) = nonempty_segments a"
  using nonempty_segments_split [of a "[]"] by (simp add: nonempty_segments_Nil)

lemma nonempty_segments_repeated:
  "nonempty_segments (a @ newline # newline # b) = nonempty_segments (a @ newline # b)"
  by (simp add: nonempty_segments_split nonempty_segments_leading)

text \<open>
  An existing regular file that passes the size test of \<open>openExistingOrNew\<close> is opened for
  appending, and the logger takes the count of \<open>linesInFile\<close> as its number of lines.
\<close>

lemma openExistingOrNew_reuse:
  assumes "\<not> fail OpStat w" and "\<not> fail OpOpen w" and "\<not> fail OpReadFile w"
    and "lookup w (filename l w) = Some (Regular i)"
    and "int (length (content (inodes w i))) + 1 \<le> max' l"
  shows "openExistingOrNew l w =
      (None, l\<lparr>file := Some \<lparr>h_ino = i, h_pos = 0, h_append = True\<rparr>,
               lines := int (nonempty_segments (content (inodes w i)))\<rparr>, w)"
  using assms
  by (simp add: openExistingOrNew_def os_Stat_def node_info_def info_of_def
      openExistingOrNew_append_def os_OpenFile_def linesInFile_def ioutil_ReadFile_def
      nonempty_segments_FieldsFunc)

text \<open>
  C10: when \<open>openExistingOrNew\<close> reuses an existing file (a regular file \<open>c\<close> at the path of
  the logger that passes the size test of the function, with \<open>os.Stat\<close>, \<open>os.OpenFile\<close> and
  \<open>ioutil.ReadFile\<close> succeeding), it returns no error, opens that file, and the \<open>lines\<close> of the
  logger are the number of non-empty segments between the newline characters of \<open>c\<close>. So
  a file of newline characters only is inherited with 0 lines; a newline at the start, a newline
  at the end and a newline after another one add no line; and a last segment that no newline
  follows is one more line.
\<close>

theorem openExistingOrNew_inherits_nonempty_segments:
  assumes "\<not> fail OpStat w" and "\<not> fail OpOpen w" and "\<not> fail OpReadFile w"
    and "lookup w (filename l w) = Some (Regular i)"
    and "content (inodes w i) = c"
    and "int (length c) + 1 \<le> max' l"
    and "openExistingOrNew l w = (err, l', w')"
  shows "err = None \<and> w' = w \<and> file l' = Some \<lparr>h_ino = i, h_pos = 0, h_append = True\<rparr>
     \<and> lines l' = int (length (filter (\<lambda>seg. seg \<noteq> []) (segments newline c)))
     \<and> (c = replicate n newline \<longrightarrow> lines l' = 0)
     \<and> (c = newline # a \<longrightarrow> lines l' = int (nonempty_segments a))
     \<and> (c = a @ [newline] \<longrightarrow> lines l' = int (nonempty_segments a))
     \<and> (c = a @ newline # newline # b \<longrightarrow> lines l' = int (nonempty_segments (a @ newline # b)))
     \<and> (c = a @ newline # seg \<and> seg \<noteq> [] \<and> newline \<notin> set seg \<longrightarrow>
          lines l' = int (nonempty_segments a) + 1)"
proof -
  have l': "l' = l\<lparr>file := Some \<lparr>h_ino = i, h_pos = 0, h_append = True\<rparr>,
                  lines := int (nonempty_segments c)\<rparr>" and "err = None" and "w' = w"
    using openExistingOrNew_reuse [OF assms(1-4)] assms(5-7) by simp_all
  show ?thesis
    using \<open>err = None\<close> \<open>w' = w\<close>
    by (simp add: l' nonempty_segments_delimiters nonempty_segments_leading
        nonempty_segments_trailing nonempty_segments_repeated nonempty_segments_split
        nonempty_segments_plain)
       (simp add: nonempty_segments_def)
qed

theorem openExistingOrNew_inherits_nonempty_segments_witness:
  "fst (openExistingOrNew example_logger (existing_log_world [newline, CHR ''a'', newline, newline, CHR ''b''])) = None
   \<and> lines (fst (snd (openExistingOrNew example_logger
         (existing_log_world [newline, CHR ''a'', newline, newline, CHR ''b''])))) = 2"
  using openExistingOrNew_inherits_nonempty_segments
    [where w = "existing_log_world [newline, CHR ''a'', newline, newline, CHR ''b'']"
       and l = example_logger and i = 0 and c = "[newline, CHR ''a'', newline, newline, CHR ''b'']"
       and err = "fst (openExistingOrNew example_logger (existing_log_world [newline, CHR ''a'', newline, newline, CHR ''b'']))"
       and l' = "fst (snd (openExistingOrNew example_logger (existing_log_world [newline, CHR ''a'', newline, newline, CHR ''b''])))"
       and w' = "snd (snd (openExistingOrNew example_logger (existing_log_world [newline, CHR ''a'', newline, newline, CHR ''b''])))"
       and n = 0 and a = "[]" and b = "[]" and seg = "[]"]
  by (simp add: existing_log_world_def example_world_def example_logger_def fail_def lookup_def
      filename_def max'_def defaultMaxLines_def newline_def)

section \<open>A write that fails\<close>

text \<open>
  C9: when \<open>Write\<close> gets as far as the write to the file (the file was open or could be opened,
  and no rotation failed), it returns the number of bytes and the error of that write, and the
  \<open>lines\<close> of the logger are one more than before the write, whether the write returned an
  error or not. A write of more bytes than the device accepts is such a failing write: it
  returns the bytes that were written and an error.
\<close>

theorem Write_counts_failed_write:
  assumes "Write_open l w = (None, l1, w1)"
    and "Write_rotate l1 w1 = (None, l2, w2)"
    and "file l2 = Some h"
    and "File_Write h p w2 = ((n, err), h', w3)"
  shows "Write l p w = ((n, map_option Errno err), l2\<lparr>file := Some h', lines := lines l2 + 1\<rparr>, w3)
     \<and> (length p > disk_free w2 \<longrightarrow> err = Some ENOSPC \<and> n = disk_free w2)"
  using assms by (auto simp: Write_def Write_file_def File_Write_def Let_def)

theorem Write_counts_failed_write_witness:
  "fst (Write open_logger ''boo!'' full_disk_world) = (2, Some (Errno ENOSPC))
   \<and> lines (fst (snd (Write open_logger ''boo!'' full_disk_world))) = 4"
  using Write_counts_failed_write [where l = open_logger and w = full_disk_world
      and ?l1.0 = open_logger and ?w1.0 = full_disk_world
      and ?l2.0 = open_logger and ?w2.0 = full_disk_world
      and h = "\<lparr>h_ino = 0, h_pos = 0, h_append = True\<rparr>" and p = "''boo!''" and n = 2
      and err = "Some ENOSPC" and h' = "\<lparr>h_ino = 0, h_pos = 3, h_append = True\<rparr>"
      and ?w3.0 = "(set_content 0 ''abo'' full_disk_world)\<lparr>disk_free := 0\<rparr>"]
  by (simp add: Write_open_def Write_rotate_def open_logger_def example_logger_def max'_def
      defaultMaxLines_def File_Write_def full_disk_world_def existing_log_world_def
      example_world_def store_def set_content_def)

section \<open>Rotating when there is no log file\<close>





section \<open>The retry loop of the move-create strategy\<close>

text \<open>
  C4: \<open>moveCreate\<close> on the log file of the example, when the next call of \<open>os.Rename\<close> fails
  and the one after it would succeed: no error is returned, \<open>os.Rename\<close> was called once (the
  one fault is used up), the program slept 10 milliseconds once, there is no backup, and the
  log file, still at its path, was emptied. When the next 25 calls of \<open>os.Rename\<close> fail, the
  result is the same: one call (24 faults are left), one sleep, and no error.
\<close>

theorem moveCreate_single_attempt:
  "fst (moveCreate (''/var/log'', ''foobar.log'') (''/var/log'', ''foobar.log.1'') (rename_fault_world 1))
     = Inr \<lparr>h_ino = 0, h_pos = 0, h_append = False\<rparr>
   \<and> faults (snd (moveCreate (''/var/log'', ''foobar.log'') (''/var/log'', ''foobar.log.1'') (rename_fault_world 1))) OpRename = 0
   \<and> slept (snd (moveCreate (''/var/log'', ''foobar.log'') (''/var/log'', ''foobar.log.1'') (rename_fault_world 1))) = 10
   \<and> lookup (snd (moveCreate (''/var/log'', ''foobar.log'') (''/var/log'', ''foobar.log.1'') (rename_fault_world 1))) (''/var/log'', ''foobar.log.1'') = None
   \<and> content (inodes (snd (moveCreate (''/var/log'', ''foobar.log'') (''/var/log'', ''foobar.log.1'') (rename_fault_world 1))) 0) = []
   \<and> fst (moveCreate (''/var/log'', ''foobar.log'') (''/var/log'', ''foobar.log.1'') (rename_fault_world 25))
     = Inr \<lparr>h_ino = 0, h_pos = 0, h_append = False\<rparr>
   \<and> faults (snd (moveCreate (''/var/log'', ''foobar.log'') (''/var/log'', ''foobar.log.1'') (rename_fault_world 25))) OpRename = 24
   \<and> slept (snd (moveCreate (''/var/log'', ''foobar.log'') (''/var/log'', ''foobar.log.1'') (rename_fault_world 25))) = 10"
  by (simp add: moveCreate_def moveCreate_loop_def move_def os_Stat_def os_Rename_def fail_def
      spend_def lookup_def rename_fault_world_def existing_log_world_def example_world_def
      node_info_def info_of_def time_Sleep_def moveCreate_open_def os_OpenFile_def chown_def
      os_Chown_def set_content_def Base_def)

section \<open>The first write to an existing file\<close>

lemma example_rotation:
  "openExistingOrNew example_logger (existing_log_world long_line) =
     (None, example_logger\<lparr>file := Some \<lparr>h_ino = 1, h_pos = 0, h_append = False\<rparr>, lines := 0\<rparr>,
      (existing_log_world long_line)
        \<lparr>entries := [((''/var/log'', ''foobar-2020-10-20T15-04-05.000000000.log''), Regular 0),
                     ((''/var/log'', ''foobar.log''), Regular 1)],
         inodes := (inodes (existing_log_world long_line))(1 := \<lparr>content = [], perm = 420, owner = (0, 0)\<rparr>),
         next_ino := 2\<rparr>)"
  by (simp add: openExistingOrNew_def os_Stat_def fail_def lookup_def node_info_def info_of_def
      max'_def defaultMaxLines_def rotate'_def close_def Logger_fileExists_def fileExists_def
      backup_def File_Close_def doMove_def moveCreate_def moveCreate_loop_def
      move_def os_Rename_def moveCreate_open_def os_OpenFile_def create_file_def chown_def
      os_Chown_def rotate_cleanup_def cleanup_def Base_def length_long_line
      existing_log_world_def example_world_def example_logger_def filename_def set_content_def
      example_backup_name [simplified existing_log_world_def example_world_def example_logger_def])

text \<open>
  C2: the log file of the example holds one line of 21 bytes, and the logger allows 10 lines.
  The first \<open>Write\<close> of the logger does not append to this file: \<open>openExistingOrNew\<close>
  compares the size of the file in bytes with the maximum number of lines, so the file is
  rotated. After the write the old line is in a backup, the log file is a new file that
  holds the bytes written and nothing else, and the line counter is 1 and not 2.
\<close>

theorem Write_rotates_short_existing_file:
  "fst (linesInFile (''/var/log'', ''foobar.log'') (existing_log_world long_line)) = Inr 1
   \<and> max' example_logger = 10
   \<and> Write example_logger ''boo!'' (existing_log_world long_line) =
     ((4, None), example_logger\<lparr>file := Some \<lparr>h_ino = 1, h_pos = 4, h_append = False\<rparr>, lines := 1\<rparr>,
      (existing_log_world long_line)
        \<lparr>entries := [((''/var/log'', ''foobar-2020-10-20T15-04-05.000000000.log''), Regular 0),
                     ((''/var/log'', ''foobar.log''), Regular 1)],
         inodes := (inodes (existing_log_world long_line))(1 := \<lparr>content = ''boo!'', perm = 420, owner = (0, 0)\<rparr>),
         next_ino := 2, disk_free := 996\<rparr>)"
  by (simp add: Write_def Write_open_def example_rotation Write_rotate_def max'_def defaultMaxLines_def
     Write_file_def File_Write_def store_def set_content_def)
    (simp add: example_logger_def existing_log_world_def example_world_def linesInFile_def
       ioutil_ReadFile_def fail_def lookup_def long_line_def FieldsFunc_def newline_def)

section \<open>The copy-truncate strategy\<close>






section \<open>Time stamps in the names of backups\<close>

lemma digit_char_0: "digit_char 0 = CHR ''0''"
  by code_simp

lemma digit_val_0: "digit_val (CHR ''0'') = 0"
  by (simp add: digit_val_def)

lemma isDigit_0: "isDigit (CHR ''0'')"
  by (simp add: isDigit_def)

lemma appendInt_nonneg:
  "appendInt (int n) k = replicate (k - length (decimal n)) (CHR ''0'') @ decimal n"
  by (simp add: appendInt_def Let_def)

lemma length_decimal: "n < 10 ^ k \<Longrightarrow> 0 < k \<Longrightarrow> length (decimal n) \<le> k"
proof (induction n arbitrary: k rule: decimal.induct)
  case (1 n)
  show ?case
  proof (cases "n < 10")
    case True
    then show ?thesis using 1(3) by (simp add: decimal_small)
  next
    case False
    then obtain j where k: "k = Suc j" using 1(3) by (cases k) auto
    have j: "0 < j" using False 1(2) k by (cases j) auto
    have "n div 10 < 10 ^ j" using 1(2) k by (simp add: less_mult_imp_div_less mult.commute)
    then have "length (decimal (n div 10)) \<le> j" using 1(1) [OF False _ j] by simp
    then show ?thesis using False k by (simp add: decimal_large)
  qed
qed

lemma length_appendInt: "n < 10 ^ k \<Longrightarrow> 0 < k \<Longrightarrow> length (appendInt (int n) k) = k"
  using length_decimal [of n k] by (simp add: appendInt_nonneg)

lemma digits_appendInt: "list_all isDigit (appendInt (int n) k)"
  using decimal_digits [of n] by (auto simp: appendInt_nonneg isDigit_0 list_all_iff)

lemma decval_zeros: "foldl (\<lambda>a c. 10 * a + digit_val c) 0 (replicate j (CHR ''0'')) = 0"
  by (induction j) (simp_all add: digit_val_0)

lemma decval_appendInt: "decval (appendInt (int n) k) = n"
  using decval_decimal [of n] by (simp add: appendInt_nonneg decval_def decval_zeros)

lemma appendInt_nonempty: "appendInt (int n) k \<noteq> []"
  by (simp add: appendInt_nonneg decimal_nonempty)

lemma atoi_appendInt: "atoi (appendInt (int n) k) = Some (int n)"
proof -
  let ?s = "appendInt (int n) k"
  have "isDigit (hd ?s)"
    using digits_appendInt [of n k] appendInt_nonempty [of n k] by (cases ?s) simp_all
  then have "hd ?s \<noteq> CHR ''-''" "hd ?s \<noteq> CHR ''+''" by (auto simp: isDigit_def)
  then show ?thesis
    by (simp add: atoi_def Let_def digits_appendInt decval_appendInt)
qed

lemma appendInt_two:
  assumes "n < 100"
  shows "appendInt (int n) 2 = [digit_char (n div 10), digit_char (n mod 10)]"
proof (cases "n < 10")
  case True
  then show ?thesis by (simp add: appendInt_nonneg decimal_small digit_char_0)
next
  case False
  then have "n div 10 < 10" using assms by simp
  then show ?thesis using False
    by (simp add: appendInt_nonneg decimal_large [of n] decimal_small)
qed

lemma getnum_appendInt:
  assumes "n < 100"
  shows "getnum (appendInt (int n) 2 @ s) fixed = Some (n, s)"
proof -
  have "n div 10 < 10" "n mod 10 < 10" using assms by simp_all
  then show ?thesis
    by (simp add: appendInt_two [OF assms] isDigit_digit_char digit_val_digit_char)
qed


lemma parse_date_Format:
  assumes "y < 10000" and "1 \<le> mo" and "mo \<le> 12" and "d < 100"
  shows "parse_date (appendInt (int y) 4 @ CHR ''-'' # appendInt (int mo) 2 @ CHR ''-'' #
            appendInt (int d) 2 @ rest) = Some ((int y, mo, d), rest)"
proof -
  define Y where "Y = appendInt (int y) 4"
  have l: "length Y = 4" using assms(1) length_appendInt [of y 4] by (simp add: Y_def)
  then have n: "Y \<noteq> []" by auto
  have a: "atoi Y = Some (int y)" by (simp add: Y_def atoi_appendInt)
  have "list_all isDigit Y" by (simp add: Y_def digits_appendInt)
  then have h: "isDigit (hd Y)" using n by (cases Y) simp_all
  have m: "mo < 100" using assms(3) by simp
  show ?thesis
    unfolding Y_def [symmetric]
    using assms(2,3)
    by (simp add: parse_date_def l n a h getnum_appendInt [OF m] getnum_appendInt [OF assms(4)])
qed

lemma parse_clock_Format:
  assumes "h < 24" and "mi < 60" and "s < 60"
  shows "parse_clock (appendInt (int h) 2 @ CHR ''-'' # appendInt (int mi) 2 @ CHR ''-'' #
            appendInt (int s) 2 @ rest) = Some ((h, mi, s), rest)"
proof -
  have "h < 100" "mi < 100" "s < 100" using assms by simp_all
  then show ?thesis
    using assms by (simp add: parse_clock_def getnum_appendInt)
qed

lemma parseNanoseconds_Format:
  assumes "ns < 1000000000"
  shows "parseNanoseconds (CHR ''.'' # appendInt (int ns) 9) = Some ns"
  by (simp add: parseNanoseconds_def atoi_appendInt)

lemma Parse_Format:
  assumes "valid_time t"
  shows "Parse (Format t) = Some t"
proof -
  obtain y where y: "year t = int y" "y < 10000"
    using assms by (cases "year t") (auto simp: valid_time_def)
  have v: "1 \<le> month t" "month t \<le> 12" "1 \<le> day t" "day t \<le> daysIn (month t) (year t)"
    "hour t < 24" "minute t < 60" "second t < 60" "nsec t < 1000000000"
    using assms by (simp_all add: valid_time_def)
  have d: "day t < 100" using v(4) by (auto simp: daysIn_def split: if_splits)
  have l: "length (appendInt (int (nsec t)) 9) = 9"
    using v(8) length_appendInt [of "nsec t" 9] by simp
  show ?thesis
    using v(3,4)
    by (simp add: Parse_def Format_def y(1) parse_date_Format [OF y(2) v(1,2) d]
        parse_clock_Format [OF v(5,6,7)] parseNanoseconds_Format [OF v(8)] l)
qed


lemma Ext_suffix: "\<exists>stem. p = stem @ Ext p"
proof (cases "dropWhile (\<lambda>c. \<not> ext_stop c) (rev p)")
  case Nil
  show ?thesis by (simp add: Ext_def Nil)
next
  case (Cons c cs)
  have "rev p = takeWhile (\<lambda>c. \<not> ext_stop c) (rev p) @ c # cs"
    using takeWhile_dropWhile_id [of "\<lambda>c. \<not> ext_stop c" "rev p"] Cons by simp
  then have "rev (rev p) = rev (takeWhile (\<lambda>c. \<not> ext_stop c) (rev p) @ c # cs)" by simp
  then have "p = rev cs @ c # rev (takeWhile (\<lambda>c. \<not> ext_stop c) (rev p))" by simp
  then show ?thesis by (cases "c = CHR ''.''") (simp_all add: Ext_def Cons, metis append_Cons append_assoc)
qed

lemma take_Ext: "take (length p - length (Ext p)) p @ Ext p = p"
proof -
  obtain stem where s: "p = stem @ Ext p" using Ext_suffix by blast
  have "take (length (stem @ Ext p) - length (Ext p)) (stem @ Ext p) = stem" by simp
  then show ?thesis using s by simp
qed

lemma Ext_dot:
  assumes "CHR ''.'' \<notin> set e" and "CHR ''/'' \<notin> set e"
  shows "Ext (stem @ CHR ''.'' # e) = CHR ''.'' # e"
proof -
  have a: "\<And>c. c \<in> set (rev e) \<Longrightarrow> \<not> ext_stop c" using assms by (auto simp: ext_stop_def)
  have "dropWhile (\<lambda>c. \<not> ext_stop c) (rev e @ CHR ''.'' # rev stem)
      = dropWhile (\<lambda>c. \<not> ext_stop c) (CHR ''.'' # rev stem)"
    by (rule dropWhile_append2) (rule a)
  then have d: "dropWhile (\<lambda>c. \<not> ext_stop c) (rev e @ CHR ''.'' # rev stem) = CHR ''.'' # rev stem"
    by (simp add: ext_stop_def)
  have "takeWhile (\<lambda>c. \<not> ext_stop c) (rev e @ CHR ''.'' # rev stem)
      = rev e @ takeWhile (\<lambda>c. \<not> ext_stop c) (CHR ''.'' # rev stem)"
    by (rule takeWhile_append2) (rule a)
  then have t: "takeWhile (\<lambda>c. \<not> ext_stop c) (rev e @ CHR ''.'' # rev stem) = rev e"
    by (simp add: ext_stop_def)
  show ?thesis by (simp add: Ext_def d t)
qed

lemma timeFromName_backup:
  "timeFromName (stem @ ''-'' @ ts @ ext) (stem @ ''-'') ext = ts"
  by (simp add: timeFromName_def HasPrefix_def HasSuffix_def Let_def)

lemma timeFromName_timestampedBackupName:
  "timeFromName (Base (timestampedBackupName l w)) (fst (prefixAndExt l w)) (snd (prefixAndExt l w))
     = Format (UTC (currentTime w))"
  using timeFromName_backup
  by (simp add: timestampedBackupName_def prefixAndExt_def Let_def Base_def Join_def)


text \<open>
  C7: for an instant with a year of four digits (0 to 9999) and calendar fields in range, the
  time stamp that \<open>timeFromName\<close> cuts out of the base name of \<open>timestampedBackupName\<close>, with
  the prefix and the extension of \<open>prefixAndExt\<close>, parses to that instant in UTC with all
  its nanoseconds. For a log file \<open>d/stem.e\<close>, where \<open>e\<close> has no dot and no slash, the backup
  name is \<open>d/stem-<time stamp>.e\<close>, with the time stamp the \<open>Format\<close> of the instant in
  UTC, and the prefix and extension are \<open>stem-\<close> and \<open>.e\<close>.
\<close>

theorem timestampedBackupName_round_trip:
  assumes "valid_time (currentTime w)"
  shows "Parse (timeFromName (Base (timestampedBackupName l w)) (fst (prefixAndExt l w)) (snd (prefixAndExt l w)))
       = Some (UTC (currentTime w))
     \<and> (filename l w = (d, stem @ ''.'' @ e) \<and> CHR ''.'' \<notin> set e \<and> CHR ''/'' \<notin> set e \<longrightarrow>
          timestampedBackupName l w = (d, stem @ ''-'' @ Format (UTC (currentTime w)) @ ''.'' @ e)
          \<and> prefixAndExt l w = (stem @ ''-'', ''.'' @ e)
          \<and> timeFromName (stem @ ''-'' @ Format (UTC (currentTime w)) @ ''.'' @ e) (stem @ ''-'') (''.'' @ e)
              = Format (UTC (currentTime w)))"
proof -
  have "Parse (Format (UTC (currentTime w))) = Some (UTC (currentTime w))"
    using assms by (simp add: UTC_def Parse_Format)
  then have a: "Parse (timeFromName (Base (timestampedBackupName l w)) (fst (prefixAndExt l w)) (snd (prefixAndExt l w)))
       = Some (UTC (currentTime w))"
    by (simp add: timeFromName_timestampedBackupName)
  have b: "timestampedBackupName l w = (d, stem @ ''-'' @ Format (UTC (currentTime w)) @ ''.'' @ e)
          \<and> prefixAndExt l w = (stem @ ''-'', ''.'' @ e)"
    if "filename l w = (d, stem @ ''.'' @ e)" "CHR ''.'' \<notin> set e" "CHR ''/'' \<notin> set e"
    using that Ext_dot [of e stem]
    by (simp add: timestampedBackupName_def prefixAndExt_def Let_def Base_def Dir_def Join_def)
  have c: "timeFromName (stem @ ''-'' @ Format (UTC (currentTime w)) @ ''.'' @ e) (stem @ ''-'') (''.'' @ e)
              = Format (UTC (currentTime w))"
    by (rule timeFromName_backup)
  show ?thesis using a b c by blast
qed

theorem timestampedBackupName_round_trip_witness:
  "timestampedBackupName example_logger (existing_log_world ''old'')
     = (''/var/log'', ''foobar-2020-10-20T15-04-05.000000000.log'')
   \<and> Parse ''2020-10-20T15-04-05.000000000'' = Some example_clock"
  using timestampedBackupName_round_trip
    [where w = "existing_log_world ''old''" and l = example_logger and d = "''/var/log''"
       and stem = "''foobar''" and e = "''log''"]
  by (simp add: currentTime_def existing_log_world_def example_world_def valid_time_def
      example_clock_def daysIn_def UTC_def example_logger_def filename_def
      Format_example_clock [unfolded example_clock_def] timeFromName_def HasPrefix_def
      HasSuffix_def Base_def Let_def timestampedBackupName_def prefixAndExt_def Dir_def Join_def
      Ext_foobar_log)

end
